theory Spec2Isabelle
  imports Complex_Main "HOL-Library.Multiset"
begin

section \<open>Values that cross the JSON boundary\<close>

text \<open>
  Descriptors, tool arguments and backend replies are JSON documents. A JSON number is a
  finite double; the program only compares such numbers and takes the sign of a
  difference, which agree with the order of the reals, so numbers are modelled as reals.
  An object is the list of its own properties (distinct keys, as \<open>JSON.parse\<close> leaves
  them). A value that is absent (JavaScript's \<open>undefined\<close>) is \<open>None\<close> of
  \<open>json option\<close>.
\<close>

datatype json =
    JNull
  | JBool bool
  | JNum real
  | JStr string
  | JArr "json list"
  | JObj "(string \<times> json) list"

text \<open>JavaScript truthiness of a value that may be absent (the operand of \<open>!\<close>, \<open>&&\<close>, \<open>if\<close>).\<close>

fun truthy :: "json option \<Rightarrow> bool" where
  "truthy None = False"
| "truthy (Some JNull) = False"
| "truthy (Some (JBool b)) = b"
| "truthy (Some (JNum x)) = (x \<noteq> 0)"
| "truthy (Some (JStr s)) = (s \<noteq> [])"
| "truthy (Some (JArr xs)) = True"
| "truthy (Some (JObj kv)) = True"

text \<open>
  Conversion of a value to text (\<open>String(v)\<close>, a template literal) throws a
  TypeError exactly when it meets an object that has an own property \<open>toString\<close>:
  coming from JSON that property is no function, and \<open>valueOf\<close> yields no
  primitive either. An object without it becomes \<open>[object Object]\<close>; an array is
  joined from the texts of its elements, \<open>null\<close> counting as the empty text.
\<close>

fun to_text_throws :: "json \<Rightarrow> bool" where
  "to_text_throws (JObj kv) \<longleftrightarrow> map_of kv ''toString'' \<noteq> None"
| "to_text_throws (JArr xs) \<longleftrightarrow> (\<exists>x \<in> set xs. to_text_throws x)"
| "to_text_throws v \<longleftrightarrow> False"

fun template_throws :: "json option \<Rightarrow> bool" where
  "template_throws None \<longleftrightarrow> False"
| "template_throws (Some j) \<longleftrightarrow> to_text_throws j"

text \<open>
  Assignment \<open>obj[k] = v\<close> on a plain object: an existing property keeps its place and
  takes the new value, a new one is appended. Keys are ordinary property names (the
  descriptor format asks for camelCase identifiers); the enumeration order of
  integer-like keys and the special name \<open>__proto__\<close> are outside the model, and no
  statement below depends on property order.
\<close>

fun obj_set :: "string \<Rightarrow> 'v \<Rightarrow> (string \<times> 'v) list \<Rightarrow> (string \<times> 'v) list" where
  "obj_set k v [] = [(k, v)]"
| "obj_set k v ((k', v') # ps) =
     (if k = k' then (k, v) # ps else (k', v') # obj_set k v ps)"


section \<open>Descriptor types (config-loader.ts, generic-types.ts)\<close>

text \<open>
  The interfaces \<open>FieldConfig\<close>, \<open>BrandingConfig\<close>, \<open>FeaturesConfig\<close> and
  \<open>DomainConfig\<close>. An optional member \<open>m?: T\<close> is a \<open>T option\<close>. The member
  \<open>type\<close> is kept as the string found in the descriptor, because the loader casts the
  parsed document without checking it and \<open>fieldToZodSchema\<close> has a \<open>default\<close> branch
  for any other token. The members \<open>type\<close>, \<open>min\<close>, \<open>max\<close>, \<open>default\<close> and the
  field's \<open>label\<close> are named \<open>ftype\<close>, \<open>fmin\<close>, \<open>fmax\<close>, \<open>fdefault\<close>, \<open>flabel\<close>;
  the member \<open>fields\<close> of \<open>DomainConfig\<close> is named \<open>cfields\<close>.
\<close>

record FieldConfig =
  key :: string
  flabel :: string
  ftype :: string
  required :: "bool option"
  hidden :: "bool option"
  showInList :: "bool option"
  showInDetail :: "bool option"
  placeholder :: "string option"
  helpText :: "string option"
  fmin :: "real option"
  fmax :: "real option"
  fdefault :: "json option"

record BrandingConfig =
  primaryColor :: "string option"
  secondaryColor :: "string option"
  logo :: "string option"

record FeaturesConfig =
  create :: "bool option"
  update :: "bool option"
  delete :: "bool option"
  archive :: "bool option"
  search :: "bool option"

record DomainConfig =
  domain :: string
  label :: string
  labelPlural :: string
  icon :: "string option"
  description :: "string option"
  branding :: "BrandingConfig option"
  features :: "FeaturesConfig option"
  cfields :: "FieldConfig list"

text \<open>The six type tokens of \<open>FieldConfig.type\<close>.\<close>

definition valid_type :: "string \<Rightarrow> bool" where
  "valid_type t \<longleftrightarrow> t \<in> set [''string'', ''text'', ''number'', ''boolean'', ''date'', ''datetime'']"

text \<open>\<open>config.features?.flag\<close>: absent when \<open>features\<close> is absent.\<close>

definition feature :: "(FeaturesConfig \<Rightarrow> bool option) \<Rightarrow> DomainConfig \<Rightarrow> bool option" where
  "feature flag config = (case features config of None \<Rightarrow> None | Some fs \<Rightarrow> flag fs)"


section \<open>Contracts: the Zod schemas built by generic-tools.ts\<close>

text \<open>
  The schema builders the program calls, as a datatype: \<open>z.string()\<close>, \<open>z.number()\<close>
  with the checks added by \<open>.min(v)\<close> and \<open>.max(v)\<close> (both inclusive in Zod),
  \<open>z.boolean()\<close>, \<open>z.any()\<close>, \<open>.optional()\<close>, \<open>.describe(text)\<close>, \<open>z.array(s)\<close>
  and \<open>z.object(shape)\<close>. A shape (\<open>Record<string, any>\<close> of schemas) is an object
  whose property values are schemas.
\<close>

datatype zcheck = Min real | Max real

datatype zschema =
    ZString
  | ZNumber "zcheck list"
  | ZBoolean
  | ZAny
  | ZOptional zschema
  | ZDescribe zschema string
  | ZArray zschema
  | ZObject "(string \<times> zschema) list"

type_synonym shape = "(string \<times> zschema) list"

fun z_min :: "real \<Rightarrow> zschema \<Rightarrow> zschema" where
  "z_min v (ZNumber cs) = ZNumber (cs @ [Min v])"
| "z_min v s = s"

fun z_max :: "real \<Rightarrow> zschema \<Rightarrow> zschema" where
  "z_max v (ZNumber cs) = ZNumber (cs @ [Max v])"
| "z_max v s = s"

fun check_ok :: "zcheck \<Rightarrow> real \<Rightarrow> bool" where
  "check_ok (Min m) x \<longleftrightarrow> m \<le> x"
| "check_ok (Max m) x \<longleftrightarrow> x \<le> m"

text \<open>
  What a schema accepts when it parses a candidate (\<open>None\<close> is an absent property):
  Zod's \<open>safeParse\<close> restricted to JSON candidates. \<open>z.object\<close> ignores properties
  that its shape does not name.
\<close>

fun accepts :: "zschema \<Rightarrow> json option \<Rightarrow> bool" where
  "accepts ZString v = (case v of Some (JStr s) \<Rightarrow> True | _ \<Rightarrow> False)"
| "accepts (ZNumber cs) v = (case v of Some (JNum x) \<Rightarrow> list_all (\<lambda>c. check_ok c x) cs | _ \<Rightarrow> False)"
| "accepts ZBoolean v = (case v of Some (JBool b) \<Rightarrow> True | _ \<Rightarrow> False)"
| "accepts ZAny v = True"
| "accepts (ZOptional s) v = (v = None \<or> accepts s v)"
| "accepts (ZDescribe s d) v = accepts s v"
| "accepts (ZArray s) v =
     (case v of Some (JArr xs) \<Rightarrow> list_all (\<lambda>x. accepts s (Some x)) xs | _ \<Rightarrow> False)"
| "accepts (ZObject sh) v =
     (case v of Some (JObj kv) \<Rightarrow> list_all (\<lambda>p. accepts (snd p) (map_of kv (fst p))) sh
      | _ \<Rightarrow> False)"

text \<open>A property of a contract is mandatory when its schema refuses an absent value.\<close>

definition mandatory :: "zschema \<Rightarrow> bool" where
  "mandatory s \<longleftrightarrow> \<not> accepts s None"

text \<open>\<open>fieldToZodSchema\<close> (generic-tools.ts, lines 49-83).\<close>

definition fieldToZodSchema :: "FieldConfig \<Rightarrow> zschema" where
  "fieldToZodSchema field =
    (let schema =
       (if ftype field = ''string'' \<or> ftype field = ''text'' then ZString
        else if ftype field = ''number'' then
          (let s0 = ZNumber [];
               s1 = (case fmin field of Some m \<Rightarrow> z_min m s0 | None \<Rightarrow> s0);
               s2 = (case fmax field of Some m \<Rightarrow> z_max m s1 | None \<Rightarrow> s1)
           in s2)
        else if ftype field = ''boolean'' then ZBoolean
        else if ftype field = ''date'' \<or> ftype field = ''datetime'' then ZString
        else ZAny);
       schema' = (if required field \<noteq> Some True then ZOptional schema else schema);
       description = (case helpText field of
                        Some h \<Rightarrow> if h \<noteq> [] then h else flabel field
                      | None \<Rightarrow> flabel field)
     in ZDescribe schema' description)"



section \<open>Tool registration (generic-tools.ts, registerGenericTools)\<close>

text \<open>
  A registered tool, as far as its contracts go: the name and the two raw shapes given to
  \<open>server.registerTool\<close>. Titles, descriptions of tools and the \<open>_meta\<close> block
  (widget URIs built from the manifest version) carry no contract and are left out.
\<close>

record tool =
  tool_name :: string
  inputSchema :: shape
  outputSchema :: shape

text \<open>\<open>String.prototype.toLowerCase\<close> on ASCII letters (used in description texts only).\<close>

definition toLowerCase :: "string \<Rightarrow> string" where
  "toLowerCase s =
     map (\<lambda>c. let n = (of_char c :: nat) in if 65 \<le> n \<and> n \<le> 90 then char_of (n + 32) else c) s"

definition systemFields :: "string list" where
  "systemFields = [''id'', ''created_date'', ''updated_date'', ''archived'']"

text \<open>
  The \<open>forEach\<close> over \<open>config.fields\<close> (lines 100-117) fills two objects with the
  same assignment; \<open>add_field\<close> is its body for one of them, and each object is one
  fold. \<open>fieldToZodSchema\<close> is pure, so both get the same schema for a field.
\<close>

definition add_field :: "FieldConfig \<Rightarrow> shape \<Rightarrow> shape" where
  "add_field field sh =
     (if key field \<in> set systemFields then sh
      else obj_set (key field) (fieldToZodSchema field) sh)"

definition entitySchema :: "DomainConfig \<Rightarrow> shape" where
  "entitySchema config =
     fold add_field (cfields config)
          [(''id'', ZString), (''archived'', ZBoolean),
           (''created_date'', ZString), (''updated_date'', ZString)]"

definition createSchema :: "DomainConfig \<Rightarrow> shape" where
  "createSchema config = fold add_field (cfields config) []"

text \<open>
  The input shape of the update tool (lines 272-277): the property \<open>id\<close>, then the spread
  of the entries of \<open>createSchema\<close>, each wrapped by \<open>.optional()\<close>.
\<close>

definition updateSchema :: "DomainConfig \<Rightarrow> shape" where
  "updateSchema config =
     fold (\<lambda>(k, v) sh. obj_set k v sh)
          (map (\<lambda>(k, v). (k, ZOptional v)) (createSchema config))
          [(''id'', ZDescribe ZString
                     (''The ID of the '' @ toLowerCase (label config) @ '' to update''))]"

definition id_input :: "DomainConfig \<Rightarrow> string \<Rightarrow> shape" where
  "id_input config verb =
     [(''id'', ZDescribe ZString
                (''The ID of the '' @ toLowerCase (label config) @ '' to '' @ verb))]"

definition registerGenericTools :: "DomainConfig \<Rightarrow> tool list" where
  "registerGenericTools config =
    (let d = domain config;
         item_output = [(''item'', ZObject (entitySchema config))];
         done_output = [(''success'', ZBoolean), (''message'', ZString)]
     in
       [\<lparr>tool_name = ''list_'' @ d,
         inputSchema =
           [(''includeArchived'',
               ZDescribe (ZOptional ZBoolean)
                 (''Include archived '' @ toLowerCase (labelPlural config))),
            (''archivedOnly'',
               ZDescribe (ZOptional ZBoolean)
                 (''Return only archived '' @ toLowerCase (labelPlural config)))],
         outputSchema =
           [(''items'', ZArray (ZObject (entitySchema config))), (''count'', ZNumber [])]\<rparr>,
        \<lparr>tool_name = ''get_'' @ d,
         inputSchema = id_input config ''retrieve'',
         outputSchema = item_output\<rparr>]
       @ (if feature create config \<noteq> Some False
          then [\<lparr>tool_name = ''create_'' @ d,
                  inputSchema = createSchema config,
                  outputSchema = item_output\<rparr>]
          else [])
       @ (if feature update config \<noteq> Some False
          then [\<lparr>tool_name = ''update_'' @ d,
                  inputSchema = updateSchema config,
                  outputSchema = item_output\<rparr>]
          else [])
       @ (if feature delete config \<noteq> Some False
          then [\<lparr>tool_name = ''delete_'' @ d,
                  inputSchema = id_input config ''delete'',
                  outputSchema = done_output\<rparr>]
          else [])
       @ (if feature archive config = Some True
          then [\<lparr>tool_name = ''archive_'' @ d,
                  inputSchema = id_input config ''archive'',
                  outputSchema = done_output\<rparr>,
                \<lparr>tool_name = ''restore_'' @ d,
                  inputSchema = id_input config ''restore'',
                  outputSchema = done_output\<rparr>]
          else []))"

definition find_tool :: "string \<Rightarrow> tool list \<Rightarrow> tool option" where
  "find_tool n ts = find (\<lambda>t. tool_name t = n) ts"

definition registered :: "string \<Rightarrow> tool list \<Rightarrow> bool" where
  "registered n ts \<longleftrightarrow> n \<in> set (map tool_name ts)"


section \<open>Tool handlers and the backend (generic-tools.ts)\<close>

text \<open>
  The backend is reached through \<open>fetch\<close>. A call either fails in transport (the promise
  rejects) or yields a response with a status line and a body; \<open>response.ok\<close> is the
  status range 200-299, and \<open>json_body\<close> is what \<open>response.json()\<close> parses (\<open>None\<close>
  when the body is not JSON). The request records the URL, the method (\<open>http_method\<close>) and the document
  given to \<open>JSON.stringify\<close> for the body.
\<close>

record request =
  url :: string
  http_method :: string
  body :: "json option"

record response =
  status :: nat
  statusText :: string
  json_body :: "json option"

datatype fetch_result = NetworkFailure | Response response

definition ok :: "response \<Rightarrow> bool" where
  "ok r \<longleftrightarrow> 200 \<le> status r \<and> status r \<le> 299"

text \<open>The exceptions a handler can end with: the constructor and the message.\<close>

datatype js_error = Error string | TypeError string | SyntaxError string

record net =
  IDEATE_API_URL :: "string option"
  fetch :: "request \<Rightarrow> fetch_result"

definition IDEATE_API_BASE :: "net \<Rightarrow> string" where
  "IDEATE_API_BASE n =
     (case IDEATE_API_URL n of
        Some u \<Rightarrow> if u \<noteq> [] then u else ''http://localhost:5055''
      | None \<Rightarrow> ''http://localhost:5055'')"

text \<open>Decimal rendering of a status code inside the template string.\<close>

function string_of_nat :: "nat \<Rightarrow> string" where
  "string_of_nat n =
     (if n < 10 then [char_of (48 + n)]
      else string_of_nat (n div 10) @ [char_of (48 + n mod 10)])"
  by pat_completeness auto
termination
  by (relation "measure id") auto

declare string_of_nat.simps [simp del]

text \<open>\<open>makeApiRequest\<close> (lines 24-44).\<close>

definition makeApiRequest :: "net \<Rightarrow> string \<Rightarrow> string \<Rightarrow> json option \<Rightarrow> js_error + json" where
  "makeApiRequest n endpoint m b =
     (case fetch n \<lparr>url = IDEATE_API_BASE n @ endpoint, http_method = m, body = b\<rparr> of
        NetworkFailure \<Rightarrow> Inl (TypeError ''fetch failed'')
      | Response r \<Rightarrow>
          if \<not> ok r
          then Inl (Error (''API request failed: '' @ string_of_nat (status r) @ '' ''
                           @ statusText r))
          else (case json_body r of
                  None \<Rightarrow> Inl (SyntaxError ''Unexpected token'')
                | Some j \<Rightarrow> Inr j))"

text \<open>
  A handler's result is its \<open>structuredContent\<close> object (a property with value
  \<open>undefined\<close> is \<open>None\<close>). The \<open>content\<close> text and \<open>_meta\<close> are not modelled
  as data, but what throws while they are built is: \<open>items.length\<close> and \<open>item.id\<close>
  throw a TypeError on \<open>null\<close>, and so does the template literal of the list
  handler when \<open>items.length\<close> cannot be converted to text.
\<close>

type_synonym structured = "(string \<times> json option) list"

text \<open>
  \<open>items.length\<close> for whatever the backend sent: the number of elements of an array, the
  length of a string (ASCII text), an own property of an object, \<open>undefined\<close> on a number
  or boolean, a TypeError on \<open>null\<close>.
\<close>

fun js_length :: "json \<Rightarrow> js_error + json option" where
  "js_length JNull = Inl (TypeError ''Cannot read properties of null'')"
| "js_length (JArr xs) = Inr (Some (JNum (real (length xs))))"
| "js_length (JStr s) = Inr (Some (JNum (real (length s))))"
| "js_length (JObj kv) = Inr (map_of kv ''length'')"
| "js_length (JBool b) = Inr None"
| "js_length (JNum x) = Inr None"

definition list_endpoint :: "DomainConfig \<Rightarrow> bool option \<Rightarrow> bool option \<Rightarrow> string" where
  "list_endpoint config includeArchived archivedOnly =
    (let queryParams =
           (if includeArchived = Some True then [''includeArchived=true''] else [])
           @ (if archivedOnly = Some True then [''archivedOnly=true''] else []);
         qs = (case queryParams of
                 [] \<Rightarrow> []
               | [p] \<Rightarrow> p
               | p # q # _ \<Rightarrow> p @ ''&'' @ q)
     in ''/'' @ domain config @ (if qs \<noteq> [] then ''?'' @ qs else []))"

definition list_handler ::
    "net \<Rightarrow> DomainConfig \<Rightarrow> bool option \<Rightarrow> bool option \<Rightarrow> js_error + structured" where
  "list_handler n config includeArchived archivedOnly =
    (case makeApiRequest n (list_endpoint config includeArchived archivedOnly) ''GET'' None of
       Inl e \<Rightarrow> Inl e
     | Inr items \<Rightarrow>
         (case js_length items of
            Inl e \<Rightarrow> Inl e
          | Inr len \<Rightarrow>
              if template_throws len
              then Inl (TypeError ''Cannot convert object to primitive value'')
              else Inr [(''items'', Some items), (''count'', len)]))"

definition get_handler :: "net \<Rightarrow> DomainConfig \<Rightarrow> string \<Rightarrow> js_error + structured" where
  "get_handler n config ident =
    (case makeApiRequest n (''/'' @ domain config @ ''/'' @ ident) ''GET'' None of
       Inl e \<Rightarrow> Inl e
     | Inr item \<Rightarrow> Inr [(''item'', Some item)])"

definition create_handler :: "net \<Rightarrow> DomainConfig \<Rightarrow> json \<Rightarrow> js_error + structured" where
  "create_handler n config input =
    (case makeApiRequest n (''/'' @ domain config) ''POST'' (Some input) of
       Inl e \<Rightarrow> Inl e
     | Inr item \<Rightarrow>
         if item = JNull then Inl (TypeError ''Cannot read properties of null'')
         else Inr [(''item'', Some item)])"

definition update_handler ::
    "net \<Rightarrow> DomainConfig \<Rightarrow> string \<Rightarrow> json \<Rightarrow> js_error + structured" where
  "update_handler n config ident updates =
    (case makeApiRequest n (''/'' @ domain config @ ''/'' @ ident) ''PUT'' (Some updates) of
       Inl e \<Rightarrow> Inl e
     | Inr item \<Rightarrow>
         if item = JNull then Inl (TypeError ''Cannot read properties of null'')
         else Inr [(''item'', Some item)])"

definition done_content :: "DomainConfig \<Rightarrow> string \<Rightarrow> string \<Rightarrow> structured" where
  "done_content config ident what =
     [(''success'', Some (JBool True)),
      (''message'', Some (JStr (label config @ '' '' @ ident @ '' has been '' @ what)))]"

definition delete_handler :: "net \<Rightarrow> DomainConfig \<Rightarrow> string \<Rightarrow> js_error + structured" where
  "delete_handler n config ident =
    (case makeApiRequest n (''/'' @ domain config @ ''/'' @ ident) ''DELETE'' None of
       Inl e \<Rightarrow> Inl e
     | Inr _ \<Rightarrow> Inr (done_content config ident ''deleted''))"

definition archive_handler :: "net \<Rightarrow> DomainConfig \<Rightarrow> string \<Rightarrow> js_error + structured" where
  "archive_handler n config ident =
    (case makeApiRequest n (''/'' @ domain config @ ''/'' @ ident @ ''/archive'') ''POST'' None of
       Inl e \<Rightarrow> Inl e
     | Inr _ \<Rightarrow> Inr (done_content config ident ''archived''))"

definition restore_handler :: "net \<Rightarrow> DomainConfig \<Rightarrow> string \<Rightarrow> js_error + structured" where
  "restore_handler n config ident =
    (case makeApiRequest n (''/'' @ domain config @ ''/'' @ ident @ ''/restore'') ''POST'' None of
       Inl e \<Rightarrow> Inl e
     | Inr _ \<Rightarrow> Inr (done_content config ident ''restored''))"

text \<open>One invocation of a generated operation, with its arguments.\<close>

datatype call =
    ListCall "bool option" "bool option"
  | GetCall string
  | CreateCall json
  | UpdateCall string json
  | DeleteCall string
  | ArchiveCall string
  | RestoreCall string

fun invoke :: "net \<Rightarrow> DomainConfig \<Rightarrow> call \<Rightarrow> js_error + structured" where
  "invoke n config (ListCall ia ao) = list_handler n config ia ao"
| "invoke n config (GetCall i) = get_handler n config i"
| "invoke n config (CreateCall inp) = create_handler n config inp"
| "invoke n config (UpdateCall i upd) = update_handler n config i upd"
| "invoke n config (DeleteCall i) = delete_handler n config i"
| "invoke n config (ArchiveCall i) = archive_handler n config i"
| "invoke n config (RestoreCall i) = restore_handler n config i"

text \<open>The request an operation passes to \<open>fetch\<close>.\<close>

definition call_request :: "net \<Rightarrow> DomainConfig \<Rightarrow> call \<Rightarrow> request" where
  "call_request n config c =
     (case c of
        ListCall ia ao \<Rightarrow>
          \<lparr>url = IDEATE_API_BASE n @ list_endpoint config ia ao, http_method = ''GET'',
           body = None\<rparr>
      | GetCall i \<Rightarrow>
          \<lparr>url = IDEATE_API_BASE n @ ''/'' @ domain config @ ''/'' @ i, http_method = ''GET'',
           body = None\<rparr>
      | CreateCall inp \<Rightarrow>
          \<lparr>url = IDEATE_API_BASE n @ ''/'' @ domain config, http_method = ''POST'',
           body = Some inp\<rparr>
      | UpdateCall i upd \<Rightarrow>
          \<lparr>url = IDEATE_API_BASE n @ ''/'' @ domain config @ ''/'' @ i, http_method = ''PUT'',
           body = Some upd\<rparr>
      | DeleteCall i \<Rightarrow>
          \<lparr>url = IDEATE_API_BASE n @ ''/'' @ domain config @ ''/'' @ i,
           http_method = ''DELETE'', body = None\<rparr>
      | ArchiveCall i \<Rightarrow>
          \<lparr>url = IDEATE_API_BASE n @ ''/'' @ domain config @ ''/'' @ i @ ''/archive'',
           http_method = ''POST'', body = None\<rparr>
      | RestoreCall i \<Rightarrow>
          \<lparr>url = IDEATE_API_BASE n @ ''/'' @ domain config @ ''/'' @ i @ ''/restore'',
           http_method = ''POST'', body = None\<rparr>)"


section \<open>The configuration loader (config-loader.ts)\<close>

text \<open>
  What \<open>load\<close> reads from outside the program: the environment variable, \<open>resolve\<close>
  of a path, and the file system. A file that exists is unreadable (\<open>readFileSync\<close>
  throws), or holds text that \<open>JSON.parse\<close> refuses, or holds a JSON document.
\<close>

datatype file_content = Unreadable | Malformed | Document json

record world =
  DOMAIN_CONFIG :: "string option"
  resolve :: "string \<Rightarrow> string"
  files :: "string \<Rightarrow> file_content option"

text \<open>
  The one process-wide instance (\<open>getInstance\<close>) with its private member \<open>config\<close>;
  \<open>null\<close> is \<open>None\<close>. The member holds the parsed document itself: the cast
  \<open>data as DomainConfig\<close> checks nothing at run time.
\<close>

record ConfigLoader =
  config :: "json option"

definition new_ConfigLoader :: ConfigLoader where
  "new_ConfigLoader = \<lparr>config = None\<rparr>"

text \<open>
  Reading a named property of a value other than \<open>null\<close>: an own property of an object,
  \<open>undefined\<close> otherwise (none of the names this program reads is a built-in member of
  an array, string, number or boolean). Reading a property of \<open>null\<close> throws; the callers
  treat that case before they call \<open>read_prop\<close>.
\<close>

fun read_prop :: "json \<Rightarrow> string \<Rightarrow> json option" where
  "read_prop (JObj kv) k = map_of kv k"
| "read_prop v k = None"

text \<open>
  The log line written after the check (line 98) puts \<open>labelPlural\<close> and
  \<open>domain\<close> of the stored document into a template literal, which throws when
  either cannot be converted to text.
\<close>

definition log_line_throws :: "json \<Rightarrow> bool" where
  "log_line_throws data \<longleftrightarrow>
     template_throws (read_prop data ''labelPlural'') \<or> template_throws (read_prop data ''domain'')"

text \<open>
  \<open>ConfigLoader.load\<close> (lines 68-104): the reply and the loader afterwards. Every
  exception inside the \<open>try\<close> block ends in the \<open>catch\<close>, which returns
  \<open>null\<close>; when the log line throws, the document has already been stored.
\<close>

definition load :: "world \<Rightarrow> string option \<Rightarrow> ConfigLoader \<Rightarrow> json option \<times> ConfigLoader" where
  "load w configPath this =
    (if truthy (config this) then (config this, this)
     else
       (let path = (case configPath of
                      Some p \<Rightarrow> if p \<noteq> [] then Some p else DOMAIN_CONFIG w
                    | None \<Rightarrow> DOMAIN_CONFIG w)
        in case path of
             None \<Rightarrow> (None, this)
           | Some p \<Rightarrow>
               if p = [] then (None, this)
               else
                 (case files w (resolve w p) of
                    None \<Rightarrow> (None, this)
                  | Some Unreadable \<Rightarrow> (None, this)
                  | Some Malformed \<Rightarrow> (None, this)
                  | Some (Document data) \<Rightarrow>
                      if data = JNull then (None, this)
                      else if \<not> truthy (read_prop data ''domain'') \<or> \<not> truthy (read_prop data ''label'')
                              \<or> \<not> truthy (read_prop data ''labelPlural'')
                              \<or> \<not> truthy (read_prop data ''fields'')
                      then (None, this)
                      else if log_line_throws data
                      then (None, this\<lparr>config := Some data\<rparr>)
                      else (Some data, this\<lparr>config := Some data\<rparr>))))"

definition get :: "ConfigLoader \<Rightarrow> json option" where
  "get this = config this"

definition reload :: "world \<Rightarrow> string option \<Rightarrow> ConfigLoader \<Rightarrow> json option \<times> ConfigLoader" where
  "reload w configPath this = load w configPath (this\<lparr>config := None\<rparr>)"

text \<open>A run of \<open>load\<close> calls, each with its own path argument and its own outside world.\<close>

fun loads :: "(world \<times> string option) list \<Rightarrow> ConfigLoader \<Rightarrow> json option list \<times> ConfigLoader" where
  "loads [] this = ([], this)"
| "loads ((w, p) # cs) this =
     (let (r, this') = load w p this;
          (rs, this'') = loads cs this'
      in (r # rs, this''))"

text \<open>
  \<open>this.config.fields.filter(pred)\<close> on the stored document: a TypeError when
  \<open>fields\<close> is not an array (it has no \<open>filter\<close> method) or when an element is
  \<open>null\<close> (the predicate reads a property of it).
\<close>

definition fields_filter :: "(json \<Rightarrow> bool) \<Rightarrow> ConfigLoader \<Rightarrow> js_error + json list" where
  "fields_filter pred this =
    (if \<not> truthy (config this) then Inr []
     else (case config this of
             None \<Rightarrow> Inr []
           | Some c \<Rightarrow>
               (case read_prop c ''fields'' of
                  Some (JArr fs) \<Rightarrow>
                    if JNull \<in> set fs then Inl (TypeError ''Cannot read properties of null'')
                    else Inr (filter pred fs)
                | _ \<Rightarrow> Inl (TypeError ''this.config.fields.filter is not a function''))))"

definition getRequiredFields :: "ConfigLoader \<Rightarrow> js_error + json list" where
  "getRequiredFields this =
     fields_filter (\<lambda>f. truthy (read_prop f ''required'') \<and> \<not> truthy (read_prop f ''hidden'')) this"

definition getListFields :: "ConfigLoader \<Rightarrow> js_error + json list" where
  "getListFields this =
     fields_filter (\<lambda>f. truthy (read_prop f ''showInList'') \<and> \<not> truthy (read_prop f ''hidden'')) this"

definition getDetailFields :: "ConfigLoader \<Rightarrow> js_error + json list" where
  "getDetailFields this =
     fields_filter (\<lambda>f. read_prop f ''showInDetail'' \<noteq> Some (JBool False) \<and> \<not> truthy (read_prop f ''hidden''))
       this"

text \<open>
  The JSON document of a typed descriptor: the form a document has when it is well
  typed for the interfaces, an optional member being a property that is present or not.
\<close>

definition opt_member :: "string \<Rightarrow> ('a \<Rightarrow> json) \<Rightarrow> 'a option \<Rightarrow> (string \<times> json) list" where
  "opt_member k enc v = (case v of None \<Rightarrow> [] | Some x \<Rightarrow> [(k, enc x)])"

definition field_json :: "FieldConfig \<Rightarrow> json" where
  "field_json f =
     JObj ([(''key'', JStr (key f)), (''label'', JStr (flabel f)), (''type'', JStr (ftype f))]
           @ opt_member ''required'' JBool (required f)
           @ opt_member ''hidden'' JBool (hidden f)
           @ opt_member ''showInList'' JBool (showInList f)
           @ opt_member ''showInDetail'' JBool (showInDetail f)
           @ opt_member ''placeholder'' JStr (placeholder f)
           @ opt_member ''helpText'' JStr (helpText f)
           @ opt_member ''min'' JNum (fmin f)
           @ opt_member ''max'' JNum (fmax f)
           @ opt_member ''default'' (\<lambda>j. j) (fdefault f))"

definition branding_json :: "BrandingConfig \<Rightarrow> json" where
  "branding_json b =
     JObj (opt_member ''primaryColor'' JStr (primaryColor b)
           @ opt_member ''secondaryColor'' JStr (secondaryColor b)
           @ opt_member ''logo'' JStr (logo b))"

definition features_json :: "FeaturesConfig \<Rightarrow> json" where
  "features_json fs =
     JObj (opt_member ''create'' JBool (create fs)
           @ opt_member ''update'' JBool (update fs)
           @ opt_member ''delete'' JBool (delete fs)
           @ opt_member ''archive'' JBool (archive fs)
           @ opt_member ''search'' JBool (search fs))"

definition config_json :: "DomainConfig \<Rightarrow> json" where
  "config_json c =
     JObj ([(''domain'', JStr (domain c)), (''label'', JStr (label c)),
            (''labelPlural'', JStr (labelPlural c))]
           @ opt_member ''icon'' JStr (icon c)
           @ opt_member ''description'' JStr (description c)
           @ opt_member ''branding'' branding_json (branding c)
           @ opt_member ''features'' features_json (features c)
           @ [(''fields'', JArr (map field_json (cfields c)))])"


section \<open>Widget helpers (generic-types.ts)\<close>

datatype view = ListView | DetailView

text \<open>\<open>shouldShowField\<close> (lines 92-98) and \<open>getFieldsForView\<close> (lines 103-108).\<close>

definition shouldShowField :: "FieldConfig \<Rightarrow> view \<Rightarrow> bool" where
  "shouldShowField field v =
     (if hidden field = Some True then False
      else (case v of
              ListView \<Rightarrow> showInList field = Some True
            | DetailView \<Rightarrow> showInDetail field \<noteq> Some False))"

definition getFieldsForView :: "DomainConfig \<Rightarrow> view \<Rightarrow> FieldConfig list" where
  "getFieldsForView c v = filter (\<lambda>f. shouldShowField f v) (cfields c)"

text \<open>
  An entity is a plain JSON object, given by its own properties. The read \<open>a[sortBy]\<close>
  yields the own property when there is one, a member inherited from
  \<open>Object.prototype\<close> when \<open>sortBy\<close> names one (a function, or the prototype object
  for \<open>__proto__\<close>), and \<open>undefined\<close> otherwise.
\<close>

type_synonym GenericEntity = "(string \<times> json) list"

datatype sort_order = Asc | Desc

datatype property_value = Own json | Inherited string | Undefined

definition Object_prototype_members :: "string list" where
  "Object_prototype_members =
     [''constructor'', ''__proto__'', ''hasOwnProperty'', ''isPrototypeOf'',
      ''propertyIsEnumerable'', ''toLocaleString'', ''toString'', ''valueOf'',
      ''__defineGetter__'', ''__defineSetter__'', ''__lookupGetter__'', ''__lookupSetter__'']"

definition entity_get :: "GenericEntity \<Rightarrow> string \<Rightarrow> property_value" where
  "entity_get a k =
     (case map_of a k of
        Some v \<Rightarrow> Own v
      | None \<Rightarrow> if k \<in> set Object_prototype_members then Inherited k else Undefined)"

text \<open>
  The two library functions the comparator calls. \<open>localeCompare\<close> is a parameter
  (collation depends on the host's locale data). \<open>String(v)\<close> throws a TypeError
  exactly when \<open>v\<close> cannot be converted to text (\<open>String_throws\<close>; inherited
  members convert); the text it returns otherwise is a parameter, named \<open>to_String\<close>.
\<close>

record intl =
  localeCompare :: "string \<Rightarrow> string \<Rightarrow> real"
  to_String :: "property_value \<Rightarrow> string"

fun String_throws :: "property_value \<Rightarrow> bool" where
  "String_throws (Own v) = to_text_throws v"
| "String_throws v = False"

definition nullish :: "property_value \<Rightarrow> bool" where
  "nullish v \<longleftrightarrow> v = Own JNull \<or> v = Undefined"

text \<open>
  The comparator passed to \<open>sort\<close> (lines 186-205): the number it returns, or the
  exception it ends with.
\<close>

type_synonym 'a comparator = "'a \<Rightarrow> 'a \<Rightarrow> js_error + real"

definition compare_by :: "intl \<Rightarrow> string \<Rightarrow> sort_order \<Rightarrow> GenericEntity comparator" where
  "compare_by l sortBy sortOrder a b =
    (let aVal = entity_get a sortBy; bVal = entity_get b sortBy
     in if nullish aVal then Inr 1
        else if nullish bVal then Inr (-1)
        else
          (case (case (aVal, bVal) of
                   (Own (JNum x), Own (JNum y)) \<Rightarrow> Inr (x - y)
                 | (Own (JStr s), Own (JStr t)) \<Rightarrow> Inr (localeCompare l s t)
                 | (u, v) \<Rightarrow>
                     if String_throws u \<or> String_throws v
                     then Inl (TypeError ''Cannot convert object to primitive value'')
                     else Inr (localeCompare l (to_String l u) (to_String l v)))
           of Inl e \<Rightarrow> Inl e
            | Inr comparison \<Rightarrow> Inr (if sortOrder = Desc then - comparison else comparison)))"





text \<open>
  One engine, executable: what V8's TimSort does with an array of fewer than 64
  elements. It compares the second element with the first to tell an ascending from a
  strictly descending start, extends that run while each element compared with its
  predecessor keeps the direction, reverses a descending run, and places every further
  element by binary search among the elements before it, comparing the new element
  (first argument) with the middle one.
\<close>

fun run_length :: "'a comparator \<Rightarrow> bool \<Rightarrow> 'a \<Rightarrow> 'a list \<Rightarrow> js_error + nat" where
  "run_length cmp desc prev [] = Inr 0"
| "run_length cmp desc prev (x # xs) =
     (case cmp x prev of
        Inl e \<Rightarrow> Inl e
      | Inr order \<Rightarrow>
          if (if desc then 0 \<le> order else order < 0) then Inr 0
          else (case run_length cmp desc x xs of Inl e \<Rightarrow> Inl e | Inr n \<Rightarrow> Inr (Suc n)))"

function binary_search :: "'a comparator \<Rightarrow> 'a \<Rightarrow> 'a list \<Rightarrow> nat \<Rightarrow> nat \<Rightarrow> js_error + nat" where
  "binary_search cmp pivot ys left right =
     (if left < right
      then (let mid = left + (right - left) div 2
            in case cmp pivot (ys ! mid) of
                 Inl e \<Rightarrow> Inl e
               | Inr order \<Rightarrow>
                   if order < 0 then binary_search cmp pivot ys left mid
                   else binary_search cmp pivot ys (mid + 1) right)
      else Inr left)"
  by pat_completeness auto
termination
  by (relation "measure (\<lambda>(cmp, pivot, ys, left, right). right - left)") auto

declare binary_search.simps [simp del]

fun binary_insertion :: "'a comparator \<Rightarrow> 'a list \<Rightarrow> 'a list \<Rightarrow> js_error + 'a list" where
  "binary_insertion cmp ys [] = Inr ys"
| "binary_insertion cmp ys (x # xs) =
     (case binary_search cmp x ys 0 (length ys) of
        Inl e \<Rightarrow> Inl e
      | Inr p \<Rightarrow> binary_insertion cmp (take p ys @ x # drop p ys) xs)"

definition short_array_sort :: "'a comparator \<Rightarrow> 'a list \<Rightarrow> js_error + 'a list" where
  "short_array_sort cmp xs =
     (case xs of
        [] \<Rightarrow> Inr []
      | [x] \<Rightarrow> Inr [x]
      | x # y # rest \<Rightarrow>
          (case cmp y x of
             Inl e \<Rightarrow> Inl e
           | Inr order \<Rightarrow>
               (let desc = order < 0
                in case run_length cmp desc y rest of
                     Inl e \<Rightarrow> Inl e
                   | Inr n \<Rightarrow>
                       (let run = take (n + 2) xs
                        in binary_insertion cmp (if desc then rev run else run)
                             (drop (n + 2) xs)))))"







section \<open>A concrete descriptor\<close>

text \<open>
  The product catalogue of the configuration guide: a hidden \<open>id\<close> field, a required
  name, a description, a price from 0 upwards and a priority from 1 to 5, with the
  archive feature switched on. A release date is added to have a temporal field.
\<close>

definition plain_field :: "string \<Rightarrow> string \<Rightarrow> string \<Rightarrow> FieldConfig" where
  "plain_field k l t =
     \<lparr>key = k, flabel = l, ftype = t, required = None, hidden = None, showInList = None,
      showInDetail = None, placeholder = None, helpText = None, fmin = None, fmax = None,
      fdefault = None\<rparr>"

definition id_field :: FieldConfig where
  "id_field = (plain_field ''id'' ''ID'' ''string'')\<lparr>hidden := Some True\<rparr>"

definition name_field :: FieldConfig where
  "name_field = (plain_field ''name'' ''Product Name'' ''string'')
                  \<lparr>required := Some True, showInList := Some True\<rparr>"

definition description_field :: FieldConfig where
  "description_field = plain_field ''description'' ''Description'' ''text''"

definition price_field :: FieldConfig where
  "price_field = (plain_field ''price'' ''Price'' ''number'')
                   \<lparr>showInList := Some True, fmin := Some 0\<rparr>"

definition priority_field :: FieldConfig where
  "priority_field = (plain_field ''priority'' ''Priority'' ''number'')
                      \<lparr>showInList := Some True, fmin := Some 1, fmax := Some 5\<rparr>"

definition released_field :: FieldConfig where
  "released_field = (plain_field ''released'' ''Released'' ''date'')\<lparr>required := Some True\<rparr>"

definition product_features :: FeaturesConfig where
  "product_features =
     \<lparr>create = None, update = None, delete = None, archive = Some True, search = None\<rparr>"

definition product_config :: DomainConfig where
  "product_config =
     \<lparr>domain = ''products'', label = ''Product'', labelPlural = ''Products'',
      icon = None, description = None, branding = None,
      features = Some product_features,
      cfields = [id_field, name_field, description_field, price_field, priority_field,
                 released_field]\<rparr>"


definition minimal_config :: DomainConfig where
  "minimal_config = product_config\<lparr>features := None\<rparr>"

text \<open>
  Descriptors that break an invariant of the descriptor format: two fields with the key
  \<open>name\<close>, a field of the unknown type \<open>money\<close>, and a document without
  \<open>labelPlural\<close>, a document whose \<open>fields\<close> is a text, and one whose
  \<open>labelPlural\<close> cannot be converted to text. A second well-formed document
  describes customers.
\<close>

definition duplicate_key_config :: DomainConfig where
  "duplicate_key_config =
     product_config\<lparr>cfields := [name_field, name_field\<lparr>flabel := ''Title'', required := None\<rparr>]\<rparr>"

definition unknown_type_config :: DomainConfig where
  "unknown_type_config = product_config\<lparr>cfields := [plain_field ''cost'' ''Cost'' ''money'']\<rparr>"

definition unlabelled_document :: json where
  "unlabelled_document =
     JObj [(''domain'', JStr ''products''), (''label'', JStr ''Product''), (''fields'', JArr [])]"

definition text_fields_document :: json where
  "text_fields_document =
     JObj [(''domain'', JStr ''notes''), (''label'', JStr ''Note''),
           (''labelPlural'', JStr ''Notes''), (''fields'', JStr ''abc'')]"

definition unprintable_document :: json where
  "unprintable_document =
     JObj [(''domain'', JStr ''notes''), (''label'', JStr ''Note''),
           (''labelPlural'', JObj [(''toString'', JNum 0)]), (''fields'', JArr [])]"

definition customer_document :: json where
  "customer_document =
     JObj [(''domain'', JStr ''customers''), (''label'', JStr ''Customer''),
           (''labelPlural'', JStr ''Customers''), (''fields'', JArr [])]"

definition example_world :: world where
  "example_world =
     \<lparr>DOMAIN_CONFIG = Some ''config/product.json'',
      resolve = (\<lambda>p. ''/app/'' @ p),
      files = (\<lambda>p.
        if p = ''/app/config/product.json'' then Some (Document (config_json product_config))
        else if p = ''/app/config/customer.json'' then Some (Document customer_document)
        else if p = ''/app/config/duplicate.json''
          then Some (Document (config_json duplicate_key_config))
        else if p = ''/app/config/money.json''
          then Some (Document (config_json unknown_type_config))
        else if p = ''/app/config/unlabelled.json'' then Some (Document unlabelled_document)
        else if p = ''/app/config/textfields.json'' then Some (Document text_fields_document)
        else if p = ''/app/config/unprintable.json''
          then Some (Document unprintable_document)
        else None)\<rparr>"

text \<open>
  A backend that answers every request with the same response, and two replies of the
  store: an unknown id with the error document the backend attaches, and a list of two
  products.
\<close>

definition constant_backend :: "response \<Rightarrow> net" where
  "constant_backend r = \<lparr>IDEATE_API_URL = None, fetch = (\<lambda>req. Response r)\<rparr>"

definition not_found_response :: response where
  "not_found_response =
     \<lparr>status = 404, statusText = ''Not Found'',
      json_body = Some (JObj [(''code'', JStr ''NotFound''),
                              (''detail'', JStr ''Product not found'')])\<rparr>"

definition mouse :: GenericEntity where
  "mouse = [(''id'', JStr ''p1''), (''name'', JStr ''Mouse''), (''price'', JNum 25)]"

definition cable :: GenericEntity where
  "cable = [(''id'', JStr ''p2''), (''name'', JStr ''Cable''), (''price'', JNull)]"


definition two_products_response :: response where
  "two_products_response =
     \<lparr>status = 200, statusText = ''OK'', json_body = Some (JArr [JObj mouse, JObj cable])\<rparr>"

text \<open>A backend that knows no product \<open>p9\<close> and answers every other request with the list.\<close>

definition selective_backend :: net where
  "selective_backend =
     \<lparr>IDEATE_API_URL = None,
      fetch = (\<lambda>req. if url req = ''http://localhost:5055/products/p9''
                     then Response not_found_response
                     else Response two_products_response)\<rparr>"


definition size_2 :: GenericEntity where
  "size_2 = [(''id'', JStr ''s1''), (''size'', JNum 2)]"

definition size_10 :: GenericEntity where
  "size_10 = [(''id'', JStr ''s2''), (''size'', JNum 10)]"

definition size_1a :: GenericEntity where
  "size_1a = [(''id'', JStr ''s3''), (''size'', JStr ''1a'')]"

text \<open>
  Specification side, for comparison with the contract of a \<open>date\<close> field: the format
  the configuration guide gives for a calendar date, \<open>YYYY-MM-DD\<close>.
\<close>

definition is_digit :: "char \<Rightarrow> bool" where
  "is_digit ch \<longleftrightarrow> (let n = (of_char ch :: nat) in 48 \<le> n \<and> n \<le> 57)"

definition spec_calendar_date :: "string \<Rightarrow> bool" where
  "spec_calendar_date s =
     (case s of
        [y1, y2, y3, y4, d1, m1, m2, d2, day1, day2] \<Rightarrow>
          list_all is_digit [y1, y2, y3, y4, m1, m2, day1, day2] \<and> d1 = CHR ''-'' \<and> d2 = CHR ''-''
      | _ \<Rightarrow> False)"

text \<open>
  Two stand-ins for the host's collation and number formatting in examples: comparison
  by length, and comparison by character codes with the two numbers used above written
  out.
\<close>

fun codepoint_compare :: "string \<Rightarrow> string \<Rightarrow> real" where
  "codepoint_compare [] [] = 0"
| "codepoint_compare [] (y # ys) = -1"
| "codepoint_compare (x # xs) [] = 1"
| "codepoint_compare (x # xs) (y # ys) =
     (if (of_char x :: nat) < of_char y then -1
      else if (of_char y :: nat) < of_char x then 1
      else codepoint_compare xs ys)"

definition codepoint_intl :: intl where
  "codepoint_intl =
     \<lparr>localeCompare = codepoint_compare,
      to_String = (\<lambda>v. case v of
                          Own (JStr s) \<Rightarrow> s
                        | Own (JNum x) \<Rightarrow> if x = 2 then ''2'' else if x = 10 then ''10'' else ''0''
                        | _ \<Rightarrow> ''[object Object]'')\<rparr>"



section \<open>Numeric bounds of a number field\<close>

text \<open>
  Claim C4. For a field of type \<open>number\<close>, the derived contract accepts a present
  candidate exactly when it is a number \<open>x\<close> with \<open>min \<le> x \<le> max\<close>, both ends
  included, where a bound the descriptor does not declare constrains nothing; every
  candidate that is not a number is rejected. The same holds after the extra
  \<open>.optional()\<close> that the update contract puts around the field's schema.
\<close>

theorem number_field_accepts_iff_within_bounds:
  assumes "ftype field = ''number''"
  shows "(accepts (fieldToZodSchema field) (Some v) \<longleftrightarrow>
            (\<exists>x. v = JNum x \<and> (\<forall>lo. fmin field = Some lo \<longrightarrow> lo \<le> x)
                             \<and> (\<forall>hi. fmax field = Some hi \<longrightarrow> x \<le> hi)))
       \<and> (accepts (ZOptional (fieldToZodSchema field)) (Some v) \<longleftrightarrow>
            accepts (fieldToZodSchema field) (Some v))
       \<and> ((\<forall>x. v \<noteq> JNum x) \<longrightarrow> \<not> accepts (fieldToZodSchema field) (Some v))"
  using assms
  by (cases "fmin field"; cases "fmax field"; cases v)
     (auto simp: fieldToZodSchema_def Let_def)

theorem number_field_accepts_iff_within_bounds_witness:
  "ftype priority_field = ''number''
   \<and> fmin priority_field = Some 1 \<and> fmax priority_field = Some 5
   \<and> accepts (fieldToZodSchema priority_field) (Some (JNum 1))
   \<and> accepts (fieldToZodSchema priority_field) (Some (JNum 5))
   \<and> \<not> accepts (fieldToZodSchema priority_field) (Some (JNum 6))
   \<and> \<not> accepts (fieldToZodSchema priority_field) (Some (JStr ''3''))"
  using number_field_accepts_iff_within_bounds [of priority_field "JNum 1"]
        number_field_accepts_iff_within_bounds [of priority_field "JNum 5"]
        number_field_accepts_iff_within_bounds [of priority_field "JNum 6"]
        number_field_accepts_iff_within_bounds [of priority_field "JStr ''3''"]
  by (simp add: priority_field_def plain_field_def)


section \<open>Temporal fields\<close>

text \<open>
  Claim C5, as stated, fails: the contract of a \<open>date\<close> field accepts the text
  \<open>tomorrow\<close>, which is no calendar date.
\<close>

theorem temporal_field_accepts_unparsable_text:
  "ftype released_field = ''date''
   \<and> accepts (fieldToZodSchema released_field) (Some (JStr ''tomorrow''))
   \<and> \<not> spec_calendar_date ''tomorrow''"
  by (simp add: released_field_def plain_field_def fieldToZodSchema_def spec_calendar_date_def)

text \<open>
  Claim C5, amended. For a field of type \<open>date\<close> or \<open>datetime\<close>, the derived
  contract accepts a present candidate exactly when it is a string, whatever its text;
  the tool layer does not parse dates or timestamps.
\<close>

theorem temporal_field_accepts_exactly_strings:
  assumes "ftype field = ''date'' \<or> ftype field = ''datetime''"
  shows "accepts (fieldToZodSchema field) (Some v) \<longleftrightarrow> (\<exists>s. v = JStr s)"
  using assms by (cases v) (auto simp: fieldToZodSchema_def Let_def)

theorem temporal_field_accepts_exactly_strings_witness:
  "(ftype released_field = ''date'' \<or> ftype released_field = ''datetime'')
   \<and> accepts (fieldToZodSchema released_field) (Some (JStr ''2024-01-15''))
   \<and> \<not> accepts (fieldToZodSchema released_field) (Some (JNum 20240115))"
  using temporal_field_accepts_exactly_strings [of released_field "JStr ''2024-01-15''"]
        temporal_field_accepts_exactly_strings [of released_field "JNum 20240115"]
  by (simp add: released_field_def plain_field_def)


section \<open>Which operations are generated\<close>

lemma registered_names:
  "map tool_name (registerGenericTools c) =
     [''list_'' @ domain c, ''get_'' @ domain c]
     @ (if feature create c \<noteq> Some False then [''create_'' @ domain c] else [])
     @ (if feature update c \<noteq> Some False then [''update_'' @ domain c] else [])
     @ (if feature delete c \<noteq> Some False then [''delete_'' @ domain c] else [])
     @ (if feature archive c = Some True
        then [''archive_'' @ domain c, ''restore_'' @ domain c] else [])"
  by (simp add: registerGenericTools_def Let_def)

text \<open>
  Claim C3. The list and get tools are always registered. The create, update and delete
  tools are registered unless their flag is explicitly \<open>false\<close>; the archive and restore
  tools are registered only when the archive flag is explicitly \<open>true\<close>. With no
  \<open>features\<close> block the tools are exactly list, get, create, update and delete.
\<close>

theorem operation_gating:
  "registered (''list_'' @ domain c) (registerGenericTools c)
   \<and> registered (''get_'' @ domain c) (registerGenericTools c)
   \<and> (registered (''create_'' @ domain c) (registerGenericTools c)
        \<longleftrightarrow> feature create c \<noteq> Some False)
   \<and> (registered (''update_'' @ domain c) (registerGenericTools c)
        \<longleftrightarrow> feature update c \<noteq> Some False)
   \<and> (registered (''delete_'' @ domain c) (registerGenericTools c)
        \<longleftrightarrow> feature delete c \<noteq> Some False)
   \<and> (registered (''archive_'' @ domain c) (registerGenericTools c)
        \<longleftrightarrow> feature archive c = Some True)
   \<and> (registered (''restore_'' @ domain c) (registerGenericTools c)
        \<longleftrightarrow> feature archive c = Some True)
   \<and> (features c = None \<longrightarrow>
        map tool_name (registerGenericTools c) =
          [''list_'' @ domain c, ''get_'' @ domain c, ''create_'' @ domain c,
           ''update_'' @ domain c, ''delete_'' @ domain c])"
  unfolding registered_def registered_names
  by (simp add: feature_def)

theorem operation_gating_witness:
  "features minimal_config = None
   \<and> map tool_name (registerGenericTools minimal_config) =
       [''list_products'', ''get_products'', ''create_products'', ''update_products'',
        ''delete_products'']
   \<and> feature archive product_config = Some True
   \<and> registered ''archive_products'' (registerGenericTools product_config)
   \<and> registered ''restore_products'' (registerGenericTools product_config)
   \<and> registered ''create_products'' (registerGenericTools product_config)"
  using operation_gating [of minimal_config] operation_gating [of product_config]
  by (simp add: minimal_config_def product_config_def product_features_def feature_def)


section \<open>Field visibility\<close>

lemma map_of_opt_member:
  "map_of (opt_member k enc v) k' = (if k' = k then map_option enc v else None)"
  by (cases v) (simp_all add: opt_member_def)

lemma read_prop_field_json_hidden:
  "read_prop (field_json f) ''hidden'' = map_option JBool (hidden f)"
  by (simp add: field_json_def map_of_opt_member map_add_def split: option.split)

lemma read_prop_field_json_showInList:
  "read_prop (field_json f) ''showInList'' = map_option JBool (showInList f)"
  by (simp add: field_json_def map_of_opt_member map_add_def split: option.split)

lemma read_prop_field_json_showInDetail:
  "read_prop (field_json f) ''showInDetail'' = map_option JBool (showInDetail f)"
  by (simp add: field_json_def map_of_opt_member map_add_def split: option.split)

lemma truthy_JBool: "truthy (map_option JBool b) \<longleftrightarrow> b = Some True"
  by (cases b) simp_all

lemma read_prop_config_json_fields:
  "read_prop (config_json c) ''fields'' = Some (JArr (map field_json (cfields c)))"
  by (simp add: config_json_def map_of_opt_member map_add_def)

lemma JNull_not_field_json: "JNull \<notin> set (map field_json fs)"
  by (auto simp: field_json_def)

lemma fields_filter_config_json:
  "fields_filter pred \<lparr>config = Some (config_json c)\<rparr>
     = Inr (map field_json (filter (\<lambda>f. pred (field_json f)) (cfields c)))"
proof -
  have "truthy (Some (config_json c))" by (simp add: config_json_def)
  then show ?thesis
    using JNull_not_field_json [of "cfields c"]
    by (simp add: fields_filter_def read_prop_config_json_fields filter_map comp_def)
qed

lemma list_pred_typed:
  "(truthy (read_prop (field_json f) ''showInList'') \<and> \<not> truthy (read_prop (field_json f) ''hidden''))
     \<longleftrightarrow> shouldShowField f ListView"
  by (auto simp: read_prop_field_json_hidden read_prop_field_json_showInList truthy_JBool
        shouldShowField_def)

lemma detail_pred_typed:
  "(read_prop (field_json f) ''showInDetail'' \<noteq> Some (JBool False)
      \<and> \<not> truthy (read_prop (field_json f) ''hidden''))
     \<longleftrightarrow> shouldShowField f DetailView"
  by (cases "showInDetail f")
     (auto simp: read_prop_field_json_hidden read_prop_field_json_showInDetail truthy_JBool
        shouldShowField_def)

lemma getListFields_typed:
  "getListFields \<lparr>config = Some (config_json c)\<rparr>
     = Inr (map field_json (getFieldsForView c ListView))"
  unfolding getListFields_def fields_filter_config_json getFieldsForView_def list_pred_typed
  by (rule refl)

lemma getDetailFields_typed:
  "getDetailFields \<lparr>config = Some (config_json c)\<rparr>
     = Inr (map field_json (getFieldsForView c DetailView))"
  unfolding getDetailFields_def fields_filter_config_json getFieldsForView_def detail_pred_typed
  by (rule refl)

text \<open>
  Claim C10. A field with \<open>hidden\<close> true is shown in no view. Otherwise the list view
  shows it exactly when \<open>showInList\<close> is explicitly true, so an absent flag excludes it,
  and the detail view shows it exactly when \<open>showInDetail\<close> is not explicitly false, so
  an absent flag includes it. The loader's \<open>getListFields\<close> and \<open>getDetailFields\<close>,
  on the document of a typed descriptor, select the same fields as the widget's
  \<open>getFieldsForView\<close>.
\<close>

theorem field_visibility_by_view:
  "(hidden f = Some True \<longrightarrow> \<not> shouldShowField f v)
   \<and> (hidden f \<noteq> Some True \<longrightarrow>
        (shouldShowField f ListView \<longleftrightarrow> showInList f = Some True)
        \<and> (shouldShowField f DetailView \<longleftrightarrow> showInDetail f \<noteq> Some False))
   \<and> (showInList f = None \<longrightarrow> \<not> shouldShowField f ListView)
   \<and> (hidden f \<noteq> Some True \<and> showInDetail f = None \<longrightarrow> shouldShowField f DetailView)
   \<and> getListFields \<lparr>config = Some (config_json c)\<rparr>
       = Inr (map field_json (getFieldsForView c ListView))
   \<and> getDetailFields \<lparr>config = Some (config_json c)\<rparr>
       = Inr (map field_json (getFieldsForView c DetailView))"
  by (simp add: shouldShowField_def getListFields_typed getDetailFields_typed)

theorem field_visibility_by_view_witness:
  "hidden id_field = Some True
   \<and> \<not> shouldShowField id_field ListView \<and> \<not> shouldShowField id_field DetailView
   \<and> hidden description_field \<noteq> Some True
   \<and> showInList description_field = None \<and> showInDetail description_field = None
   \<and> \<not> shouldShowField description_field ListView
   \<and> shouldShowField description_field DetailView
   \<and> showInList name_field = Some True \<and> shouldShowField name_field ListView"
  using field_visibility_by_view [of id_field ListView]
        field_visibility_by_view [of id_field DetailView]
        field_visibility_by_view [of description_field ListView]
        field_visibility_by_view [of name_field ListView]
  by (simp add: id_field_def description_field_def name_field_def plain_field_def)


section \<open>The list response\<close>

text \<open>
  Claim C6. When the backend answers the list request with an array, the structured
  response of the list tool has the two properties \<open>items\<close> and \<open>count\<close>: \<open>items\<close> is
  that array, unchanged and in the same order, and \<open>count\<close> is its number of elements.
\<close>

theorem list_response_items_and_count:
  assumes "fetch n \<lparr>url = IDEATE_API_BASE n @ list_endpoint c ia ao, http_method = ''GET'',
                    body = None\<rparr> = Response r"
      and "ok r" and "json_body r = Some (JArr xs)"
  shows "list_handler n c ia ao =
           Inr [(''items'', Some (JArr xs)), (''count'', Some (JNum (real (length xs))))]"
  using assms by (simp add: list_handler_def makeApiRequest_def)

theorem list_response_items_and_count_witness:
  "ok two_products_response
   \<and> json_body two_products_response = Some (JArr [JObj mouse, JObj cable])
   \<and> list_handler (constant_backend two_products_response) product_config None (Some True) =
       Inr [(''items'', Some (JArr [JObj mouse, JObj cable])), (''count'', Some (JNum 2))]"
  using list_response_items_and_count
          [of "constant_backend two_products_response" product_config None "Some True"
              two_products_response "[JObj mouse, JObj cable]"]
  by (simp add: constant_backend_def two_products_response_def ok_def)


section \<open>Failing backend responses\<close>

text \<open>
  Claim C7, as stated, fails: the backend answers a get request for an unknown id with
  status 404 and a document carrying the code \<open>NotFound\<close>; the operation ends with a
  plain \<open>Error\<close> whose only content is the status line.
\<close>

theorem not_found_surfaces_as_status_line:
  "\<not> ok not_found_response
   \<and> json_body not_found_response
       = Some (JObj [(''code'', JStr ''NotFound''), (''detail'', JStr ''Product not found'')])
   \<and> invoke (constant_backend not_found_response) product_config (GetCall ''p9'')
       = Inl (Error ''API request failed: 404 Not Found'')"
proof -
  have s: "string_of_nat 404 = ''404''"
    by code_simp
  show ?thesis
    by (simp add: not_found_response_def constant_backend_def ok_def get_handler_def
          makeApiRequest_def s)
qed

lemma makeApiRequest_failing:
  assumes "fetch n \<lparr>url = IDEATE_API_BASE n @ e, http_method = m, body = b\<rparr> = Response r"
      and "\<not> ok r"
  shows "makeApiRequest n e m b =
           Inl (Error (''API request failed: '' @ string_of_nat (status r) @ '' '' @ statusText r))"
  using assms by (simp add: makeApiRequest_def)

text \<open>
  Claim C7, amended. Whenever the backend answers the request of a generated operation
  with a failing response (a status outside 200-299, whatever it stands for), the
  operation ends with an \<open>Error\<close> whose message is \<open>API request failed:\<close> followed
  by the status code and the status text of that response. The body of the response is
  not read, so no code of the error taxonomy reaches the caller.
\<close>

theorem failing_backend_yields_status_line_error:
  assumes "fetch n (call_request n c call) = Response r" and "\<not> ok r"
  shows "invoke n c call =
           Inl (Error (''API request failed: '' @ string_of_nat (status r) @ '' '' @ statusText r))"
proof (cases call)
  case (ListCall ia ao)
  with assms show ?thesis
    by (simp add: call_request_def list_handler_def makeApiRequest_failing)
next
  case (GetCall i)
  with assms show ?thesis
    by (simp add: call_request_def get_handler_def makeApiRequest_failing)
next
  case (CreateCall inp)
  with assms show ?thesis
    by (simp add: call_request_def create_handler_def makeApiRequest_failing)
next
  case (UpdateCall i upd)
  with assms show ?thesis
    by (simp add: call_request_def update_handler_def makeApiRequest_failing)
next
  case (DeleteCall i)
  with assms show ?thesis
    by (simp add: call_request_def delete_handler_def makeApiRequest_failing)
next
  case (ArchiveCall i)
  with assms show ?thesis
    by (simp add: call_request_def archive_handler_def makeApiRequest_failing)
next
  case (RestoreCall i)
  with assms show ?thesis
    by (simp add: call_request_def restore_handler_def makeApiRequest_failing)
qed

theorem failing_backend_yields_status_line_error_witness:
  "fetch selective_backend (call_request selective_backend product_config (DeleteCall ''p9''))
     = Response not_found_response
   \<and> \<not> ok not_found_response
   \<and> invoke selective_backend product_config (DeleteCall ''p9'')
       = Inl (Error ''API request failed: 404 Not Found'')
   \<and> invoke selective_backend product_config (ListCall None None)
       = Inr [(''items'', Some (JArr [JObj mouse, JObj cable])), (''count'', Some (JNum 2))]"
proof -
  have a: "fetch selective_backend
             (call_request selective_backend product_config (DeleteCall ''p9''))
           = Response not_found_response"
    by (simp add: selective_backend_def call_request_def IDEATE_API_BASE_def product_config_def)
  have b: "\<not> ok not_found_response"
    by (simp add: ok_def not_found_response_def)
  have s: "string_of_nat 404 = ''404''"
    by code_simp
  from failing_backend_yields_status_line_error [OF a b]
  have d: "invoke selective_backend product_config (DeleteCall ''p9'')
          = Inl (Error ''API request failed: 404 Not Found'')"
    by (simp add: not_found_response_def s)
  have l: "invoke selective_backend product_config (ListCall None None)
       = Inr [(''items'', Some (JArr [JObj mouse, JObj cable])), (''count'', Some (JNum 2))]"
    by (simp add: selective_backend_def list_handler_def list_endpoint_def makeApiRequest_def
          IDEATE_API_BASE_def product_config_def two_products_response_def ok_def)
  from a b d l show ?thesis by simp
qed


section \<open>Loading a descriptor\<close>

lemma read_prop_config_json_top:
  "read_prop (config_json c) ''domain'' = Some (JStr (domain c))"
  "read_prop (config_json c) ''label'' = Some (JStr (label c))"
  "read_prop (config_json c) ''labelPlural'' = Some (JStr (labelPlural c))"
  by (simp_all add: config_json_def)

lemma truthy_config_json: "truthy (Some (config_json c))"
  by (simp add: config_json_def)

lemma config_json_not_null: "config_json c \<noteq> JNull"
  by (simp add: config_json_def)

lemma read_prop_JNull: "read_prop JNull k = None"
  by simp

lemma load_passing_document:
  assumes "files w (resolve w p) = Some (Document d)" and "p \<noteq> []"
      and "truthy (read_prop d ''domain'')" and "truthy (read_prop d ''label'')"
      and "truthy (read_prop d ''labelPlural'')" and "truthy (read_prop d ''fields'')"
      and "\<not> log_line_throws d"
  shows "load w (Some p) new_ConfigLoader = (Some d, \<lparr>config = Some d\<rparr>)"
proof -
  from assms(3) have "d \<noteq> JNull" by auto
  with assms show ?thesis
    by (simp add: load_def new_ConfigLoader_def)
qed

lemma load_typed_descriptor:
  assumes "files w (resolve w p) = Some (Document (config_json c))" and "p \<noteq> []"
      and "domain c \<noteq> []" and "label c \<noteq> []" and "labelPlural c \<noteq> []"
  shows "load w (Some p) new_ConfigLoader
           = (Some (config_json c), \<lparr>config = Some (config_json c)\<rparr>)"
  using assms
  by (intro load_passing_document)
     (simp_all add: read_prop_config_json_top read_prop_config_json_fields log_line_throws_def)

lemma load_falsy_key:
  assumes "files w (resolve w p) = Some (Document d)" and "p \<noteq> []"
      and "k \<in> {''domain'', ''label'', ''labelPlural'', ''fields''}"
      and "\<not> truthy (read_prop d k)"
  shows "load w (Some p) new_ConfigLoader = (None, new_ConfigLoader)"
  using assms by (auto simp: load_def new_ConfigLoader_def)

text \<open>
  The log line after a successful check can throw: the configuration is then already
  stored, the exception is caught, and \<open>load\<close> returns \<open>null\<close> with the loader
  loaded.
\<close>

lemma load_log_line_failure:
  "load example_world (Some ''config/unprintable.json'') new_ConfigLoader
     = (None, \<lparr>config = Some unprintable_document\<rparr>)"
  by (simp add: load_def new_ConfigLoader_def example_world_def unprintable_document_def
        log_line_throws_def)

text \<open>
  Claim C2, as stated, fails: a descriptor with two fields of the same key loads, and so
  does a descriptor with a field of the unknown type \<open>money\<close>; each becomes the
  configuration in use.
\<close>

theorem load_accepts_duplicate_keys_and_unknown_types:
  "\<not> distinct (map key (cfields duplicate_key_config))
   \<and> load example_world (Some ''config/duplicate.json'') new_ConfigLoader
       = (Some (config_json duplicate_key_config),
          \<lparr>config = Some (config_json duplicate_key_config)\<rparr>)
   \<and> \<not> valid_type (ftype (plain_field ''cost'' ''Cost'' ''money''))
   \<and> cfields unknown_type_config = [plain_field ''cost'' ''Cost'' ''money'']
   \<and> load example_world (Some ''config/money.json'') new_ConfigLoader
       = (Some (config_json unknown_type_config),
          \<lparr>config = Some (config_json unknown_type_config)\<rparr>)"
proof -
  have 1: "\<not> distinct (map key (cfields duplicate_key_config))"
    by (simp add: duplicate_key_config_def name_field_def plain_field_def)
  have 2: "\<not> valid_type (ftype (plain_field ''cost'' ''Cost'' ''money''))"
       "cfields unknown_type_config = [plain_field ''cost'' ''Cost'' ''money'']"
    by (simp_all add: unknown_type_config_def plain_field_def valid_type_def)
  have 3: "load example_world (Some ''config/duplicate.json'') new_ConfigLoader
       = (Some (config_json duplicate_key_config),
          \<lparr>config = Some (config_json duplicate_key_config)\<rparr>)"
    by (rule load_typed_descriptor)
       (simp_all add: example_world_def duplicate_key_config_def product_config_def)
  have 4: "load example_world (Some ''config/money.json'') new_ConfigLoader
       = (Some (config_json unknown_type_config),
          \<lparr>config = Some (config_json unknown_type_config)\<rparr>)"
    by (rule load_typed_descriptor)
       (simp_all add: example_world_def unknown_type_config_def product_config_def)
  from 1 2 3 4 show ?thesis by simp
qed

text \<open>
  Claim C2, amended. \<open>load\<close> raises no error and distinguishes no kinds of failure;
  what it checks of a readable JSON document is the presence of four top-level keys.
  When one of \<open>domain\<close>, \<open>label\<close>, \<open>labelPlural\<close>, \<open>fields\<close> is missing (or
  holds a falsy value: \<open>null\<close>, \<open>false\<close>, 0 or the empty string), it returns
  \<open>null\<close> and leaves the loader unloaded. When all four are present and truthy, and
  \<open>labelPlural\<close> and \<open>domain\<close> can be written into the log line (any text, number or
  boolean can), it returns the document and keeps it as the configuration, whatever
  \<open>fields\<close> holds. In particular every typed descriptor with non-empty \<open>domain\<close>,
  \<open>label\<close> and \<open>labelPlural\<close> loads, whatever the keys and type tokens of its
  fields.
\<close>

theorem load_checks_top_level_keys_only:
  assumes "files w (resolve w p) = Some (Document d)" and "p \<noteq> []"
  shows "(k \<in> {''domain'', ''label'', ''labelPlural'', ''fields''} \<and> \<not> truthy (read_prop d k)
            \<longrightarrow> load w (Some p) new_ConfigLoader = (None, new_ConfigLoader))
       \<and> (truthy (read_prop d ''domain'') \<and> truthy (read_prop d ''label'')
            \<and> truthy (read_prop d ''labelPlural'') \<and> truthy (read_prop d ''fields'')
            \<and> \<not> log_line_throws d
            \<longrightarrow> load w (Some p) new_ConfigLoader = (Some d, \<lparr>config = Some d\<rparr>))
       \<and> (d = config_json c \<and> domain c \<noteq> [] \<and> label c \<noteq> [] \<and> labelPlural c \<noteq> []
            \<longrightarrow> load w (Some p) new_ConfigLoader = (Some d, \<lparr>config = Some d\<rparr>))"
  using load_falsy_key [OF assms, of k] load_passing_document [OF assms]
        load_typed_descriptor [of w p c] assms
  by blast

theorem load_checks_top_level_keys_only_witness:
  "files example_world (resolve example_world ''config/unlabelled.json'')
     = Some (Document unlabelled_document)
   \<and> \<not> truthy (read_prop unlabelled_document ''labelPlural'')
   \<and> load example_world (Some ''config/unlabelled.json'') new_ConfigLoader
       = (None, new_ConfigLoader)
   \<and> files example_world (resolve example_world ''config/textfields.json'')
       = Some (Document text_fields_document)
   \<and> read_prop text_fields_document ''fields'' = Some (JStr ''abc'')
   \<and> load example_world (Some ''config/textfields.json'') new_ConfigLoader
       = (Some text_fields_document, \<lparr>config = Some text_fields_document\<rparr>)
   \<and> files example_world (resolve example_world ''config/money.json'')
       = Some (Document (config_json unknown_type_config))
   \<and> load example_world (Some ''config/money.json'') new_ConfigLoader
       = (Some (config_json unknown_type_config),
          \<lparr>config = Some (config_json unknown_type_config)\<rparr>)"
proof -
  have f1: "files example_world (resolve example_world ''config/unlabelled.json'')
     = Some (Document unlabelled_document)"
    by (simp add: example_world_def)
  have f2: "files example_world (resolve example_world ''config/money.json'')
       = Some (Document (config_json unknown_type_config))"
    by (simp add: example_world_def)
  have f3: "files example_world (resolve example_world ''config/textfields.json'')
       = Some (Document text_fields_document)"
    by (simp add: example_world_def)
  have m: "\<not> truthy (read_prop unlabelled_document ''labelPlural'')"
    by (simp add: unlabelled_document_def)
  have t: "truthy (read_prop text_fields_document ''domain'')"
      "truthy (read_prop text_fields_document ''label'')"
      "truthy (read_prop text_fields_document ''labelPlural'')"
      "truthy (read_prop text_fields_document ''fields'')"
      "\<not> log_line_throws text_fields_document"
      "read_prop text_fields_document ''fields'' = Some (JStr ''abc'')"
    by (simp_all add: text_fields_document_def log_line_throws_def)
  have ne: "domain unknown_type_config \<noteq> []" "label unknown_type_config \<noteq> []"
      "labelPlural unknown_type_config \<noteq> []"
    by (simp_all add: unknown_type_config_def product_config_def)
  from load_checks_top_level_keys_only [OF f1, of "''labelPlural''"] m
  have 1: "load example_world (Some ''config/unlabelled.json'') new_ConfigLoader
       = (None, new_ConfigLoader)" by simp
  from load_checks_top_level_keys_only [OF f2, of _ unknown_type_config] ne
  have 2: "load example_world (Some ''config/money.json'') new_ConfigLoader
       = (Some (config_json unknown_type_config),
          \<lparr>config = Some (config_json unknown_type_config)\<rparr>)" by simp
  from load_checks_top_level_keys_only [OF f3] t
  have 3: "load example_world (Some ''config/textfields.json'') new_ConfigLoader
       = (Some text_fields_document, \<lparr>config = Some text_fields_document\<rparr>)" by simp
  from f1 f2 f3 m t 1 2 3 show ?thesis by simp
qed


section \<open>The first successful load wins\<close>

lemma load_when_loaded:
  "truthy (config this) \<Longrightarrow> load w p this = (config this, this)"
  by (simp add: load_def)

lemma truthy_read_prop_obj:
  "truthy (read_prop d k) \<Longrightarrow> truthy (Some d)"
  by (cases d) simp_all

lemma load_success_state:
  assumes "load w p this = (Some c, this')"
  shows "config this' = Some c \<and> truthy (Some c)"
  using assms
  by (auto simp: load_def Let_def split: if_splits option.splits file_content.splits
           dest: truthy_read_prop_obj)

lemma loads_when_loaded:
  "truthy (config this) \<Longrightarrow> loads calls this = (replicate (length calls) (config this), this)"
  by (induction calls) (auto simp: load_when_loaded)

lemma loads_after_one_success:
  assumes "load w p this = (Some c, this')"
  shows "loads calls this' = (replicate (length calls) (Some c), this')"
  using load_success_state [OF assms] loads_when_loaded [of this' calls] by simp

text \<open>
  Claim C8. In every run of \<open>load\<close> calls on the process-wide loader, whatever the path
  arguments and whatever happens to the environment and the files in between, once a
  call has returned a configuration every later call returns that same configuration,
  and it is the one the loader holds at the end: \<open>load\<close> never replaces it.
\<close>

theorem loads_after_success:
  assumes "loads calls this = (rs, t)" and "i < j" and "j < length rs" and "rs ! i = Some c"
  shows "rs ! j = Some c \<and> config t = Some c"
  using assms
proof (induction calls arbitrary: this rs i j t)
  case Nil
  then show ?case by simp
next
  case (Cons a calls)
  obtain w p where a: "a = (w, p)" by (cases a)
  obtain r this1 where l: "load w p this = (r, this1)" by (cases "load w p this")
  obtain rs1 t1 where ls: "loads calls this1 = (rs1, t1)" by (cases "loads calls this1")
  from Cons.prems(1) a l ls have rs: "rs = r # rs1" and t: "t = t1" by simp_all
  obtain j' where j: "j = Suc j'" using Cons.prems(2) by (cases j) simp_all
  show ?case
  proof (cases i)
    case 0
    then have "r = Some c" using Cons.prems(4) rs by simp
    with l have "loads calls this1 = (replicate (length calls) (Some c), this1)"
      and "config this1 = Some c"
      using loads_after_one_success [of w p this c this1 calls]
            load_success_state [of w p this c this1]
      by simp_all
    with ls rs t j Cons.prems(3) show ?thesis by auto
  next
    case (Suc i')
    then show ?thesis
      using Cons.IH [OF ls, of i' j'] Cons.prems rs t j by simp
  qed
qed

theorem loads_after_success_witness:
  "loads [(example_world, Some ''config/missing.json''), (example_world, None),
          (example_world, Some ''config/customer.json'')] new_ConfigLoader
     = ([None, Some (config_json product_config), Some (config_json product_config)],
        \<lparr>config = Some (config_json product_config)\<rparr>)
   \<and> [None, Some (config_json product_config), Some (config_json product_config)] ! 2
       = Some (config_json product_config)"
proof -
  have e: "loads [(example_world, Some ''config/missing.json''), (example_world, None),
          (example_world, Some ''config/customer.json'')] new_ConfigLoader
     = ([None, Some (config_json product_config), Some (config_json product_config)],
        \<lparr>config = Some (config_json product_config)\<rparr>)"
    by (simp add: load_def new_ConfigLoader_def example_world_def read_prop_config_json_top
          read_prop_config_json_fields config_json_not_null truthy_config_json
          log_line_throws_def product_config_def)
  from loads_after_success [OF e, of 1 2 "config_json product_config"]
  have "[None, Some (config_json product_config), Some (config_json product_config)] ! 2
       = Some (config_json product_config)"
    by simp
  with e show ?thesis by simp
qed


section \<open>Sorting entities\<close>


















lemma run_length_bound: "run_length cmp desc prev xs = Inr n \<Longrightarrow> n \<le> length xs"
  by (induction xs arbitrary: prev n) (auto split: sum.splits if_splits)



















text \<open>
  With numbers and text mixed under the sort key the comparator compares in a cycle
  (2 before 10 as numbers, 10 before 1a and 1a before 2 as texts); the engine above then
  keeps \<open>[2, 10, 1a]\<close> as one ascending run.
\<close>

lemma mixed_values_kept_as_one_run:
  "short_array_sort (compare_by codepoint_intl ''size'' Asc) [size_2, size_10, size_1a]
     = Inr [size_2, size_10, size_1a]"
  by (simp add: short_array_sort_def compare_by_def entity_get_def nullish_def
        size_2_def size_10_def size_1a_def codepoint_intl_def binary_search.simps)


section \<open>The derived input and output contracts\<close>

lemma map_of_obj_set: "map_of (obj_set k v ps) = (map_of ps)(k \<mapsto> v)"
  by (induction ps) (auto simp: fun_eq_iff)

lemma map_of_add_field:
  "map_of (add_field f sh) =
     (if key f \<in> set systemFields then map_of sh else (map_of sh)(key f \<mapsto> fieldToZodSchema f))"
  by (simp add: add_field_def map_of_obj_set)

lemma dom_fold_add_field:
  "dom (map_of (fold add_field fs acc)) =
     dom (map_of acc) \<union> {key f |f. f \<in> set fs \<and> key f \<notin> set systemFields}"
  by (induction fs arbitrary: acc) (auto simp: map_of_add_field)

lemma lookup_fold_add_field_other:
  "k \<notin> key ` set fs \<Longrightarrow> map_of (fold add_field fs acc) k = map_of acc k"
  by (induction fs arbitrary: acc) (auto simp: map_of_add_field)

lemma lookup_fold_add_field_system:
  "k \<in> set systemFields \<Longrightarrow> map_of (fold add_field fs acc) k = map_of acc k"
  by (induction fs arbitrary: acc) (auto simp: map_of_add_field)

lemma lookup_fold_add_field_distinct:
  "distinct (map key fs) \<Longrightarrow> f \<in> set fs \<Longrightarrow> key f \<notin> set systemFields \<Longrightarrow>
   map_of (fold add_field fs acc) (key f) = Some (fieldToZodSchema f)"
proof (induction fs arbitrary: acc)
  case Nil
  then show ?case by simp
next
  case (Cons g gs)
  show ?case
  proof (cases "f = g")
    case True
    with Cons.prems have "key g \<notin> key ` set gs" by simp
    with True Cons.prems(3) show ?thesis
      by (simp add: lookup_fold_add_field_other map_of_add_field)
  next
    case False
    with Cons show ?thesis by simp
  qed
qed

lemma mandatory_fieldToZodSchema:
  "valid_type (ftype f) \<Longrightarrow> mandatory (fieldToZodSchema f) \<longleftrightarrow> required f = Some True"
  by (cases "fmin f"; cases "fmax f")
     (auto simp: mandatory_def fieldToZodSchema_def valid_type_def Let_def)

lemma dom_fold_obj_set:
  "dom (map_of (fold (\<lambda>(k, v) sh. obj_set k v sh) xs acc)) = dom (map_of acc) \<union> fst ` set xs"
  by (induction xs arbitrary: acc) (auto simp: map_of_obj_set)

lemma lookup_fold_obj_set_other:
  "k \<notin> fst ` set xs \<Longrightarrow> map_of (fold (\<lambda>(k, v) sh. obj_set k v sh) xs acc) k = map_of acc k"
  by (induction xs arbitrary: acc) (auto simp: map_of_obj_set)

lemma lookup_fold_obj_set_present:
  "k \<in> fst ` set xs \<Longrightarrow>
   \<exists>v. (k, v) \<in> set xs \<and> map_of (fold (\<lambda>(k, v) sh. obj_set k v sh) xs acc) k = Some v"
proof (induction xs arbitrary: acc)
  case Nil
  then show ?case by simp
next
  case (Cons x xs)
  obtain k' v' where x: "x = (k', v')" by (cases x)
  show ?case
  proof (cases "k \<in> fst ` set xs")
    case True
    from Cons.IH [OF True, of "obj_set k' v' acc"] x show ?thesis by auto
  next
    case False
    with Cons.prems x have "k = k'" by auto
    with False x show ?thesis
      by (simp add: lookup_fold_obj_set_other map_of_obj_set)
  qed
qed

lemma dom_createSchema:
  "dom (map_of (createSchema c)) = {key f |f. f \<in> set (cfields c) \<and> key f \<notin> set systemFields}"
  by (simp add: createSchema_def dom_fold_add_field)

lemma fst_optional_image:
  "fst ` (\<lambda>(k, v). (k, ZOptional v)) ` set sh = dom (map_of sh)"
  by (force simp: dom_map_of_conv_image_fst)

lemma fst_optional_entries:
  "fst ` set (map (\<lambda>(k, v). (k, ZOptional v)) sh) = dom (map_of sh)"
  by (simp add: fst_optional_image)

lemma dom_updateSchema:
  "dom (map_of (updateSchema c)) = insert ''id'' (dom (map_of (createSchema c)))"
  by (simp add: updateSchema_def dom_fold_obj_set fst_optional_image)

lemma updateSchema_id:
  "map_of (updateSchema c) ''id'' =
     Some (ZDescribe ZString (''The ID of the '' @ toLowerCase (label c) @ '' to update''))"
proof -
  have "''id'' \<notin> dom (map_of (createSchema c))"
    by (auto simp: dom_createSchema systemFields_def)
  then show ?thesis
    by (simp add: updateSchema_def lookup_fold_obj_set_other fst_optional_image)
qed

lemma updateSchema_field_optional:
  assumes "k \<in> dom (map_of (createSchema c))"
  shows "\<exists>s. map_of (updateSchema c) k = Some s \<and> \<not> mandatory s"
proof -
  let ?xs = "map (\<lambda>(k, v). (k, ZOptional v)) (createSchema c)"
  from assms have "k \<in> fst ` set ?xs" by (simp only: fst_optional_entries)
  from lookup_fold_obj_set_present [OF this]
  obtain v where v: "(k, v) \<in> set ?xs" and l: "map_of (updateSchema c) k = Some v"
    unfolding updateSchema_def by blast
  from v obtain s where "v = ZOptional s" by auto
  with l show ?thesis by (simp add: mandatory_def)
qed

lemma system_not_in_createSchema:
  "k \<in> set systemFields \<Longrightarrow> map_of (createSchema c) k = None"
  by (simp add: createSchema_def lookup_fold_add_field_system)

lemma system_not_in_updateSchema:
  assumes "k \<in> set systemFields" and "k \<noteq> ''id''"
  shows "map_of (updateSchema c) k = None"
proof -
  have "k \<notin> dom (map_of (updateSchema c))"
    using assms system_not_in_createSchema [of k c] by (auto simp: dom_updateSchema)
  then show ?thesis by auto
qed

lemma system_in_entitySchema:
  "k \<in> set systemFields \<Longrightarrow> \<exists>s. map_of (entitySchema c) k = Some s \<and> mandatory s"
  by (auto simp: entitySchema_def lookup_fold_add_field_system systemFields_def mandatory_def)

lemma find_tool_create:
  "feature create c \<noteq> Some False \<Longrightarrow>
   \<exists>t. find_tool (''create_'' @ domain c) (registerGenericTools c) = Some t
       \<and> inputSchema t = createSchema c"
  by (simp add: find_tool_def registerGenericTools_def Let_def)

lemma find_tool_update:
  "feature update c \<noteq> Some False \<Longrightarrow>
   \<exists>t. find_tool (''update_'' @ domain c) (registerGenericTools c) = Some t
       \<and> inputSchema t = updateSchema c"
  by (simp add: find_tool_def registerGenericTools_def Let_def)

text \<open>
  Claim C1. The properties of the create-input contract are exactly the keys of the
  descriptor's non-system fields. In a schema whose field keys are unique, the contract
  holds for each such field the schema derived from it, and, the field's type being one
  of the six tokens, the property is mandatory exactly when the field is declared
  required. The create and update tools, when enabled, carry these contracts. The
  update-input contract has the property \<open>id\<close>, mandatory and accepting exactly
  strings, and besides it the properties of the create-input contract, none of them
  mandatory. The system fields \<open>id\<close>, \<open>archived\<close>, \<open>created_date\<close>,
  \<open>updated_date\<close> are no property of the create-input contract and, \<open>id\<close> apart,
  none of the update-input contract; each is a mandatory property of the entity
  contract used for output.
\<close>

theorem derived_input_contracts:
  "dom (map_of (createSchema c)) = {key f |f. f \<in> set (cfields c) \<and> key f \<notin> set systemFields}
   \<and> (distinct (map key (cfields c)) \<longrightarrow>
        (\<forall>f \<in> set (cfields c). key f \<notin> set systemFields \<and> valid_type (ftype f) \<longrightarrow>
           map_of (createSchema c) (key f) = Some (fieldToZodSchema f)
           \<and> (mandatory (fieldToZodSchema f) \<longleftrightarrow> required f = Some True)))
   \<and> (feature create c \<noteq> Some False \<longrightarrow>
        (\<exists>t. find_tool (''create_'' @ domain c) (registerGenericTools c) = Some t
             \<and> inputSchema t = createSchema c))
   \<and> (feature update c \<noteq> Some False \<longrightarrow>
        (\<exists>t. find_tool (''update_'' @ domain c) (registerGenericTools c) = Some t
             \<and> inputSchema t = updateSchema c))
   \<and> dom (map_of (updateSchema c)) = insert ''id'' (dom (map_of (createSchema c)))
   \<and> (\<exists>s. map_of (updateSchema c) ''id'' = Some s \<and> mandatory s
            \<and> (\<forall>v. accepts s (Some v) \<longleftrightarrow> (\<exists>t. v = JStr t)))
   \<and> (\<forall>k \<in> dom (map_of (createSchema c)).
         \<exists>s. map_of (updateSchema c) k = Some s \<and> \<not> mandatory s)
   \<and> (\<forall>k \<in> set systemFields.
         map_of (createSchema c) k = None
         \<and> (k \<noteq> ''id'' \<longrightarrow> map_of (updateSchema c) k = None))
   \<and> (\<forall>k \<in> set systemFields. \<exists>s. map_of (entitySchema c) k = Some s \<and> mandatory s)"
proof -
  have create_fields: "distinct (map key (cfields c)) \<longrightarrow>
        (\<forall>f \<in> set (cfields c). key f \<notin> set systemFields \<and> valid_type (ftype f) \<longrightarrow>
           map_of (createSchema c) (key f) = Some (fieldToZodSchema f)
           \<and> (mandatory (fieldToZodSchema f) \<longleftrightarrow> required f = Some True))"
    by (simp add: createSchema_def lookup_fold_add_field_distinct mandatory_fieldToZodSchema)
  have id_string: "\<forall>v. accepts (ZDescribe ZString d) (Some v) \<longleftrightarrow> (\<exists>t. v = JStr t)" for d
    by (auto split: json.splits)
  have upd_id: "\<exists>s. map_of (updateSchema c) ''id'' = Some s \<and> mandatory s
            \<and> (\<forall>v. accepts s (Some v) \<longleftrightarrow> (\<exists>t. v = JStr t))"
    unfolding updateSchema_id using id_string by (simp add: mandatory_def)
  have sys: "\<forall>k \<in> set systemFields.
         map_of (createSchema c) k = None
         \<and> (k \<noteq> ''id'' \<longrightarrow> map_of (updateSchema c) k = None)"
    using system_not_in_createSchema system_not_in_updateSchema by blast
  have tools:
    "feature create c \<noteq> Some False \<longrightarrow>
        (\<exists>t. find_tool (''create_'' @ domain c) (registerGenericTools c) = Some t
             \<and> inputSchema t = createSchema c)"
    "feature update c \<noteq> Some False \<longrightarrow>
        (\<exists>t. find_tool (''update_'' @ domain c) (registerGenericTools c) = Some t
             \<and> inputSchema t = updateSchema c)"
    using find_tool_create [of c] find_tool_update [of c] by blast+
  have upd_fields: "\<forall>k \<in> dom (map_of (createSchema c)).
         \<exists>s. map_of (updateSchema c) k = Some s \<and> \<not> mandatory s"
    using updateSchema_field_optional [of _ c] by blast
  have ent: "\<forall>k \<in> set systemFields. \<exists>s. map_of (entitySchema c) k = Some s \<and> mandatory s"
    using system_in_entitySchema [of _ c] by blast
  from dom_createSchema [of c] create_fields tools dom_updateSchema [of c] upd_id upd_fields
    sys ent
  show ?thesis
    by - (intro conjI, assumption+)
qed

theorem derived_input_contracts_witness:
  "distinct (map key (cfields product_config))
   \<and> name_field \<in> set (cfields product_config) \<and> key name_field \<notin> set systemFields
   \<and> valid_type (ftype name_field) \<and> required name_field = Some True
   \<and> mandatory (fieldToZodSchema name_field)
   \<and> map_of (createSchema product_config) ''name'' = Some (fieldToZodSchema name_field)
   \<and> description_field \<in> set (cfields product_config)
   \<and> \<not> mandatory (fieldToZodSchema description_field)
   \<and> feature create product_config \<noteq> Some False
   \<and> feature update product_config \<noteq> Some False
   \<and> ''name'' \<in> dom (map_of (createSchema product_config))
   \<and> (\<exists>s. map_of (updateSchema product_config) ''name'' = Some s \<and> \<not> mandatory s)
   \<and> ''id'' \<in> set systemFields
   \<and> map_of (createSchema product_config) ''id'' = None
   \<and> (\<exists>s. map_of (entitySchema product_config) ''id'' = Some s \<and> mandatory s)"
proof -
  note t = derived_input_contracts [of product_config]
  have fs: "cfields product_config =
      [id_field, name_field, description_field, price_field, priority_field, released_field]"
    by (simp add: product_config_def)
  have keys: "map key (cfields product_config) =
      [''id'', ''name'', ''description'', ''price'', ''priority'', ''released'']"
    by (simp add: fs id_field_def name_field_def description_field_def price_field_def
        priority_field_def released_field_def plain_field_def)
  have d: "distinct (map key (cfields product_config))"
    unfolding keys by simp
  have n: "name_field \<in> set (cfields product_config)"
       "key name_field \<notin> set systemFields" "key name_field = ''name''"
       "valid_type (ftype name_field)" "required name_field = Some True"
    by (simp_all add: fs name_field_def plain_field_def systemFields_def valid_type_def)
  have de: "description_field \<in> set (cfields product_config)"
       "key description_field \<notin> set systemFields"
       "valid_type (ftype description_field)" "required description_field = None"
    by (simp_all add: fs description_field_def plain_field_def systemFields_def valid_type_def)
  have f: "feature create product_config \<noteq> Some False"
          "feature update product_config \<noteq> Some False"
    by (simp_all add: feature_def product_config_def product_features_def)
  have i: "''id'' \<in> set systemFields" by (simp add: systemFields_def)
  from t d n have 1: "mandatory (fieldToZodSchema name_field)"
    "map_of (createSchema product_config) ''name'' = Some (fieldToZodSchema name_field)"
    by metis+
  from t d de have 2: "\<not> mandatory (fieldToZodSchema description_field)"
    by (metis option.distinct(1))
  from 1 have 3: "''name'' \<in> dom (map_of (createSchema product_config))" by auto
  from t 3 have 4: "\<exists>s. map_of (updateSchema product_config) ''name'' = Some s \<and> \<not> mandatory s"
    by blast
  from t i have 5: "map_of (createSchema product_config) ''id'' = None"
    "\<exists>s. map_of (entitySchema product_config) ''id'' = Some s \<and> mandatory s"
    by blast+
  show ?thesis using d n de f 1 2 3 4 5 i by simp
qed

end
